theory Spec2Isabelle
  imports Main "HOL-Library.Multiset"
begin

section \<open>The store behind the tools\<close>

text \<open>
  \<^verbatim>\<open>mcp_server.py\<close> keeps no state of its own: every operation opens the SQLite file
  \<^verbatim>\<open>support.db\<close>, runs one or two statements and closes it. The file is modelled as a
  value of type \<open>db\<close> that the operations take and, when they write, return.

  Argument values are taken at the types the tools' input schemas declare (integers,
  strings, a mapping of strings). An integer is Python's, unbounded; the store holds
  signed 64-bit integers, and binding a larger one to a statement raises
  \<^verbatim>\<open>OverflowError\<close>. A time stamp is what \<^verbatim>\<open>CURRENT_TIMESTAMP\<close> yields, a text of fixed
  width that compares as the moment it denotes; it is modelled as a number of seconds.
  Faults of the environment (an unreadable file, a locked database) are outside the model.
\<close>

type_synonym timestamp = nat

text \<open>
  Modelled from the spec: the two tables of the store. Their schema is created by
  \<^verbatim>\<open>database_setup.py\<close>, which is not among the sources, so the tables are the ones the
  interface section of the specification lists: \<^verbatim>\<open>customers\<close> with the columns id, name,
  email, phone, status, created_at, updated_at and \<^verbatim>\<open>tickets\<close> with the columns id,
  customer_id, issue, status, priority, created_at. A table is the list of its rows in
  insertion order.
\<close>

record customer =
  c_id :: int
  c_name :: string
  c_email :: string
  c_phone :: string
  c_status :: string
  c_created_at :: timestamp
  c_updated_at :: timestamp

record ticket =
  t_id :: int
  t_customer_id :: int
  t_issue :: string
  t_status :: string
  t_priority :: string
  t_created_at :: timestamp

record db =
  customers :: "customer list"
  tickets :: "ticket list"

text \<open>
  Modelled from the spec: the constraint the customers table puts on a row. The data model
  of the specification gives status \<open>\<in>\<close> {active, disabled} as the invariant of a stored
  customer, and \<^verbatim>\<open>mcp_server.py\<close> never checks the value of a status itself; the schema
  of the table is created by \<^verbatim>\<open>database_setup.py\<close>, which is not among the sources. A
  statement that would leave a row outside the constraint fails as a whole with
  \<^verbatim>\<open>IntegrityError\<close>.
\<close>

definition customers_check :: "customer \<Rightarrow> bool" where
  "customers_check c = (c_status c \<in> {''active'', ''disabled''})"

subsection \<open>The SQL the operations issue\<close>

text \<open>
  The exceptions the code can raise, each with its message. \<^verbatim>\<open>OverflowError\<close> and
  \<^verbatim>\<open>IntegrityError\<close> come from the \<^verbatim>\<open>sqlite3\<close> module, through \<^verbatim>\<open>cur.execute\<close>.
\<close>

datatype exn =
    ValueError string
  | TypeError string
  | KeyError string
  | OverflowError string
  | IntegrityError string

text \<open>
  An integer parameter of a statement must fit SQLite's signed 64-bit integer; otherwise
  \<^verbatim>\<open>cur.execute\<close> raises before the statement runs.
\<close>

definition sqlite_int :: "int \<Rightarrow> bool" where
  "sqlite_int n = (- (2 ^ 63) \<le> n \<and> n < 2 ^ 63)"

definition too_large :: exn where
  "too_large = OverflowError ''Python int too large to convert to SQLite INTEGER''"

definition check_failed :: exn where
  "check_failed = IntegrityError ''CHECK constraint failed: status''"

text \<open>
  \<^verbatim>\<open>ORDER BY created_at DESC\<close>: the rows with the greatest time stamp first. SQL leaves
  the order of rows with equal time stamps open; the model fixes one, and no theorem
  below depends on which.
\<close>

definition order_by_desc :: "('a \<Rightarrow> timestamp) \<Rightarrow> 'a list \<Rightarrow> 'a list" where
  "order_by_desc created_at rows = rev (sort_key created_at rows)"

text \<open>
  \<^verbatim>\<open>LIMIT ?\<close>: SQLite returns at most that many rows, and every row when the bound is
  negative.
\<close>

definition sql_limit :: "int \<Rightarrow> 'a list \<Rightarrow> 'a list" where
  "sql_limit n rows = (if n < 0 then rows else take (nat n) rows)"

text \<open>
  Modelled from the spec: the identity a single-row insert generates. The schema is not
  at hand; the rule is SQLite's for an integer primary key, one more than the greatest
  identity in the table, and 1 in an empty table.
\<close>

definition lastrowid :: "int list \<Rightarrow> int" where
  "lastrowid ids = (case ids of [] \<Rightarrow> 1 | i # rest \<Rightarrow> fold max rest i + 1)"

text \<open>
  \<^verbatim>\<open>UPDATE customers SET f = ?, ..., updated_at = CURRENT_TIMESTAMP\<close> on one row: the
  named columns take the bound values, then \<^verbatim>\<open>updated_at\<close> takes the current time.
\<close>

definition set_column :: "string \<Rightarrow> string \<Rightarrow> customer \<Rightarrow> customer" where
  "set_column f v c =
     (if f = ''name'' then c\<lparr>c_name := v\<rparr>
      else if f = ''email'' then c\<lparr>c_email := v\<rparr>
      else if f = ''phone'' then c\<lparr>c_phone := v\<rparr>
      else if f = ''status'' then c\<lparr>c_status := v\<rparr>
      else c)"

definition set_clause :: "string list \<Rightarrow> string list \<Rightarrow> timestamp \<Rightarrow> customer \<Rightarrow> customer" where
  "set_clause fs vals now c =
     (fold (\<lambda>(f, v). set_column f v) (zip fs vals) c)\<lparr>c_updated_at := now\<rparr>"

section \<open>The operations\<close>

text \<open>
  What an operation returns: \<^verbatim>\<open>dict(row)\<close> of a customer or of a ticket, the empty
  dictionary \<^verbatim>\<open>{}\<close>, a list of customer rows, or the history dictionary with its two
  keys (\<open>None\<close> is Python's \<^verbatim>\<open>None\<close>).
\<close>

datatype payload =
    CustomerRow customer
  | EmptyRecord
  | CustomerRows "customer list"
  | TicketRow ticket
  | HistoryRecord "customer option" "ticket list"

text \<open>The text \<^verbatim>\<open>str(e)\<close> gives for an exception.\<close>

definition quoted :: "string \<Rightarrow> string" where
  "quoted s = CHR 0x27 # s @ [CHR 0x27]"

fun str :: "exn \<Rightarrow> string" where
  "str (ValueError m) = m"
| "str (TypeError m) = m"
| "str (KeyError k) = quoted k"
| "str (OverflowError m) = m"
| "str (IntegrityError m) = m"

definition get_customer :: "int \<Rightarrow> db \<Rightarrow> exn + payload" where
  "get_customer customer_id d =
     (if \<not> sqlite_int customer_id then Inl too_large
      else
        (case find (\<lambda>c. c_id c = customer_id) (customers d) of
           Some row \<Rightarrow> Inr (CustomerRow row)
         | None \<Rightarrow> Inr EmptyRecord))"

definition list_customers :: "string \<Rightarrow> int \<Rightarrow> db \<Rightarrow> exn + customer list" where
  "list_customers status limit d =
     (if \<not> sqlite_int limit then Inl too_large
      else
        Inr (sql_limit limit
               (order_by_desc c_created_at (filter (\<lambda>c. c_status c = status) (customers d)))))"

definition allowed_fields :: "string list" where
  "allowed_fields = [''name'', ''email'', ''phone'', ''status'']"

text \<open>
  The dictionary \<^verbatim>\<open>data\<close> is the list of its items in insertion order; \<^verbatim>\<open>data[f]\<close> is
  \<open>map_of data f\<close> and raises \<^verbatim>\<open>KeyError\<close> where that is \<open>None\<close>. The comprehension
  \<^verbatim>\<open>[data[f] for f in fields]\<close> looks the fields up one after the other.
\<close>

fun lookup_all :: "(string \<times> string) list \<Rightarrow> string list \<Rightarrow> exn + string list" where
  "lookup_all data [] = Inr []"
| "lookup_all data (f # fs) =
     (case map_of data f of
        None \<Rightarrow> Inl (KeyError f)
      | Some v \<Rightarrow> (case lookup_all data fs of Inl e \<Rightarrow> Inl e | Inr vs \<Rightarrow> Inr (v # vs)))"

text \<open>The list \<^verbatim>\<open>fields\<close> of the source is \<open>fs\<close> here, and \<^verbatim>\<open>values\<close> is \<open>vals\<close>.\<close>

definition update_customer ::
  "int \<Rightarrow> (string \<times> string) list \<Rightarrow> timestamp \<Rightarrow> db \<Rightarrow> (exn + payload) \<times> db" where
  "update_customer customer_id data now d =
     (let fs = filter (\<lambda>k. k \<in> set allowed_fields) (map fst data) in
      if fs = [] then (Inl (ValueError ''No valid fields to update.''), d)
      else
        (case lookup_all data fs of
           Inl e \<Rightarrow> (Inl e, d)
         | Inr vals \<Rightarrow>
             if \<not> sqlite_int customer_id then (Inl too_large, d)
             else if \<exists>c \<in> set (customers d).
                       c_id c = customer_id \<and> \<not> customers_check (set_clause fs vals now c)
             then (Inl check_failed, d)
             else
               (let d' = d\<lparr>customers :=
                          map (\<lambda>c. if c_id c = customer_id then set_clause fs vals now c else c)
                            (customers d)\<rparr>
                in (case find (\<lambda>c. c_id c = customer_id) (customers d') of
                      Some row \<Rightarrow> (Inr (CustomerRow row), d')
                    | None \<Rightarrow> (Inr EmptyRecord, d')))))"

definition create_ticket ::
  "int \<Rightarrow> string \<Rightarrow> string \<Rightarrow> timestamp \<Rightarrow> db \<Rightarrow> (exn + payload) \<times> db" where
  "create_ticket customer_id issue priority now d =
     (if priority \<notin> {''low'', ''medium'', ''high''}
      then (Inl (ValueError ''priority must be one of: low, medium, high''), d)
      else if \<not> sqlite_int customer_id then (Inl too_large, d)
      else
        (let ticket_id = lastrowid (map t_id (tickets d));
             d' = d\<lparr>tickets := tickets d @
                    [\<lparr>t_id = ticket_id, t_customer_id = customer_id, t_issue = issue,
                      t_status = ''open'', t_priority = priority, t_created_at = now\<rparr>]\<rparr>
         in (case find (\<lambda>t. t_id t = ticket_id) (tickets d') of
               Some row \<Rightarrow> (Inr (TicketRow row), d')
             | None \<Rightarrow> (Inl (TypeError (quoted ''NoneType'' @ '' object is not iterable'')), d'))))"

definition get_customer_history :: "int \<Rightarrow> db \<Rightarrow> exn + payload" where
  "get_customer_history customer_id d =
     (if \<not> sqlite_int customer_id then Inl too_large
      else
        (case find (\<lambda>c. c_id c = customer_id) (customers d) of
           None \<Rightarrow> Inr (HistoryRecord None [])
         | Some cust \<Rightarrow>
             Inr (HistoryRecord (Some cust)
                    (order_by_desc t_created_at
                       (filter (\<lambda>t. t_customer_id t = customer_id) (tickets d))))))"

section \<open>The registry\<close>

text \<open>
  The dictionary \<^verbatim>\<open>arguments\<close> of a call, which \<^verbatim>\<open>tool_def.func(**arguments)\<close> binds to
  the parameters of the operation: one optional field for each parameter name the five
  operations have, holding a value of the declared type, and the names of all other keys.
\<close>

record kwargs =
  kw_customer_id :: "int option"
  kw_status :: "string option"
  kw_limit :: "int option"
  kw_data :: "(string \<times> string) list option"
  kw_issue :: "string option"
  kw_priority :: "string option"
  kw_other :: "string list"

definition no_kwargs :: kwargs where
  "no_kwargs = \<lparr>kw_customer_id = None, kw_status = None, kw_limit = None, kw_data = None,
     kw_issue = None, kw_priority = None, kw_other = []\<rparr>"

definition kw_keys :: "kwargs \<Rightarrow> string list" where
  "kw_keys kw =
     (if kw_customer_id kw = None then [] else [''customer_id'']) @
     (if kw_status kw = None then [] else [''status'']) @
     (if kw_limit kw = None then [] else [''limit'']) @
     (if kw_data kw = None then [] else [''data'']) @
     (if kw_issue kw = None then [] else [''issue'']) @
     (if kw_priority kw = None then [] else [''priority'']) @
     kw_other kw"

text \<open>
  A call with a keyword the operation has no parameter for, or without a parameter that
  has no default, raises \<^verbatim>\<open>TypeError\<close> before the body of the operation runs.
\<close>

definition unexpected :: "string list \<Rightarrow> kwargs \<Rightarrow> string list" where
  "unexpected params kw = filter (\<lambda>k. k \<notin> set params) (kw_keys kw)"

definition unexpected_keyword :: "string \<Rightarrow> string \<Rightarrow> exn" where
  "unexpected_keyword f k = TypeError (f @ ''() got an unexpected keyword argument '' @ quoted k)"

definition missing_argument :: "string \<Rightarrow> string \<Rightarrow> exn" where
  "missing_argument f p = TypeError (f @ ''() missing 1 required positional argument: '' @ quoted p)"

definition missing_arguments :: "string \<Rightarrow> string \<Rightarrow> string \<Rightarrow> exn" where
  "missing_arguments f p q =
     TypeError (f @ ''() missing 2 required positional arguments: '' @ quoted p @ '' and '' @ quoted q)"

type_synonym tool_func = "kwargs \<Rightarrow> timestamp \<Rightarrow> db \<Rightarrow> (exn + payload) \<times> db"

definition call_get_customer :: tool_func where
  "call_get_customer kw now d =
     (case unexpected [''customer_id''] kw of
        k # _ \<Rightarrow> (Inl (unexpected_keyword ''get_customer'' k), d)
      | [] \<Rightarrow>
          (case kw_customer_id kw of
             None \<Rightarrow> (Inl (missing_argument ''get_customer'' ''customer_id''), d)
           | Some customer_id \<Rightarrow> (get_customer customer_id d, d)))"

definition call_list_customers :: tool_func where
  "call_list_customers kw now d =
     (case unexpected [''status'', ''limit''] kw of
        k # _ \<Rightarrow> (Inl (unexpected_keyword ''list_customers'' k), d)
      | [] \<Rightarrow>
          (let status = (case kw_status kw of None \<Rightarrow> ''active'' | Some s \<Rightarrow> s);
               limit = (case kw_limit kw of None \<Rightarrow> 20 | Some n \<Rightarrow> n)
           in (case list_customers status limit d of
                 Inl e \<Rightarrow> (Inl e, d)
               | Inr rows \<Rightarrow> (Inr (CustomerRows rows), d))))"

definition call_update_customer :: tool_func where
  "call_update_customer kw now d =
     (case unexpected [''customer_id'', ''data''] kw of
        k # _ \<Rightarrow> (Inl (unexpected_keyword ''update_customer'' k), d)
      | [] \<Rightarrow>
          (case (kw_customer_id kw, kw_data kw) of
             (Some customer_id, Some data) \<Rightarrow> update_customer customer_id data now d
           | (None, Some _) \<Rightarrow> (Inl (missing_argument ''update_customer'' ''customer_id''), d)
           | (Some _, None) \<Rightarrow> (Inl (missing_argument ''update_customer'' ''data''), d)
           | (None, None) \<Rightarrow>
               (Inl (missing_arguments ''update_customer'' ''customer_id'' ''data''), d)))"

definition call_create_ticket :: tool_func where
  "call_create_ticket kw now d =
     (case unexpected [''customer_id'', ''issue'', ''priority''] kw of
        k # _ \<Rightarrow> (Inl (unexpected_keyword ''create_ticket'' k), d)
      | [] \<Rightarrow>
          (case (kw_customer_id kw, kw_issue kw) of
             (Some customer_id, Some issue) \<Rightarrow>
               create_ticket customer_id issue
                 (case kw_priority kw of None \<Rightarrow> ''medium'' | Some p \<Rightarrow> p) now d
           | (None, Some _) \<Rightarrow> (Inl (missing_argument ''create_ticket'' ''customer_id''), d)
           | (Some _, None) \<Rightarrow> (Inl (missing_argument ''create_ticket'' ''issue''), d)
           | (None, None) \<Rightarrow>
               (Inl (missing_arguments ''create_ticket'' ''customer_id'' ''issue''), d)))"

definition call_get_customer_history :: tool_func where
  "call_get_customer_history kw now d =
     (case unexpected [''customer_id''] kw of
        k # _ \<Rightarrow> (Inl (unexpected_keyword ''get_customer_history'' k), d)
      | [] \<Rightarrow>
          (case kw_customer_id kw of
             None \<Rightarrow> (Inl (missing_argument ''get_customer_history'' ''customer_id''), d)
           | Some customer_id \<Rightarrow> (get_customer_history customer_id d, d)))"

text \<open>
  A registry entry. The two schemas of an entry are data that \<^verbatim>\<open>tools/list\<close> hands out;
  \<^verbatim>\<open>tools/call\<close> never reads them, and they are left out here.
\<close>

record ToolDef =
  td_name :: string
  td_description :: string
  td_func :: tool_func

definition TOOLS :: "string \<Rightarrow> ToolDef option" where
  "TOOLS = map_of
     [(''get_customer'',
         \<lparr>td_name = ''get_customer'', td_description = ''Get a single customer by id.'',
          td_func = call_get_customer\<rparr>),
      (''list_customers'',
         \<lparr>td_name = ''list_customers'',
          td_description = ''List customers by status with an optional limit.'',
          td_func = call_list_customers\<rparr>),
      (''update_customer'',
         \<lparr>td_name = ''update_customer'',
          td_description = ''Update fields of a customer record.'',
          td_func = call_update_customer\<rparr>),
      (''create_ticket'',
         \<lparr>td_name = ''create_ticket'',
          td_description = ''Create a new support ticket for a customer.'',
          td_func = call_create_ticket\<rparr>),
      (''get_customer_history'',
         \<lparr>td_name = ''get_customer_history'',
          td_description = ''Get a customer and all of their tickets.'',
          td_func = call_get_customer_history\<rparr>)]"

section \<open>The endpoint \<^verbatim>\<open>tools/call\<close>\<close>

text \<open>
  One line of the streamed response: the dictionary with the key \<^verbatim>\<open>event\<close>, the tool name
  and, for a result or an error, the output or the message.
\<close>

datatype event =
    Start string
  | Result string payload
  | Error string string
  | End string

text \<open>
  The generator \<^verbatim>\<open>event_stream\<close>: the lines it yields, in order, and the store once it is
  exhausted. The handler \<^verbatim>\<open>except Exception\<close> takes every value of type \<open>exn\<close>.
\<close>

definition event_stream :: "string \<Rightarrow> ToolDef \<Rightarrow> kwargs \<Rightarrow> timestamp \<Rightarrow> db \<Rightarrow> event list \<times> db" where
  "event_stream name tool_def arguments now d =
     (case td_func tool_def arguments now d of
        (Inr result, d') \<Rightarrow> ([Start name] @ [Result name result] @ [End name], d')
      | (Inl e, d') \<Rightarrow> ([Start name] @ [Error name (str e)] @ [End name], d'))"

text \<open>
  The request body is a \<^verbatim>\<open>Dict[str, Any]\<close>: the value under \<^verbatim>\<open>name\<close> can be any JSON
  value. Numbers with a fraction are left out; at this endpoint they behave as the
  integers do.
\<close>

datatype json =
    JNull
  | JBool bool
  | JInt int
  | JStr string
  | JList "json list"
  | JObj "(string \<times> json) list"

text \<open>Python's truth value of a JSON value, which \<^verbatim>\<open>if not name\<close> tests.\<close>

fun truthy :: "json \<Rightarrow> bool" where
  "truthy JNull = False"
| "truthy (JBool b) = b"
| "truthy (JInt n) = (n \<noteq> 0)"
| "truthy (JStr s) = (s \<noteq> [])"
| "truthy (JList xs) = (xs \<noteq> [])"
| "truthy (JObj kvs) = (kvs \<noteq> [])"

text \<open>
  The body: the value under \<^verbatim>\<open>name\<close>, \<open>None\<close> where the key is absent, and the
  dictionary under \<^verbatim>\<open>arguments\<close>, \<open>None\<close> where the key is absent or null.
\<close>

record body =
  b_name :: "json option"
  b_arguments :: "kwargs option"

text \<open>
  The answer to a request: a rejection raised as \<^verbatim>\<open>HTTPException\<close>, with its status code and
  its detail (\<^verbatim>\<open>Missing 'name' in request body.\<close>, or \<^verbatim>\<open>Unknown tool '...'.\<close> with the
  name formatted into it); the streamed events; or an exception that leaves the handler
  uncaught, which the framework answers with status 500.
\<close>

datatype detail = Missing_name | Unknown_tool json

datatype response =
    HTTPException nat detail
  | StreamingResponse "event list"
  | Unhandled exn

text \<open>
  \<^verbatim>\<open>TOOLS.get(name)\<close> hashes the name first: a list or a dictionary is unhashable and the
  lookup raises \<^verbatim>\<open>TypeError\<close>, outside any \<^verbatim>\<open>try\<close>. A string is looked up. Every other
  value is hashable and equals no key of the registry.
\<close>

definition tools_call :: "body \<Rightarrow> timestamp \<Rightarrow> db \<Rightarrow> response \<times> db" where
  "tools_call b now d =
     (case b_name b of
        None \<Rightarrow> (HTTPException 400 Missing_name, d)
      | Some name \<Rightarrow>
          if \<not> truthy name then (HTTPException 400 Missing_name, d)
          else
            (case name of
               JList _ \<Rightarrow> (Unhandled (TypeError (''unhashable type: '' @ quoted ''list'')), d)
             | JObj _ \<Rightarrow> (Unhandled (TypeError (''unhashable type: '' @ quoted ''dict'')), d)
             | JStr s \<Rightarrow>
                 (case TOOLS s of
                    None \<Rightarrow> (HTTPException 404 (Unknown_tool name), d)
                  | Some tool_def \<Rightarrow>
                      (let arguments = (case b_arguments b of None \<Rightarrow> no_kwargs | Some a \<Rightarrow> a);
                           (events, d') = event_stream s tool_def arguments now d
                       in (StreamingResponse events, d')))
             | _ \<Rightarrow> (HTTPException 404 (Unknown_tool name), d)))"

text \<open>The events a response carries: none unless events were streamed.\<close>

fun events_of :: "response \<Rightarrow> event list" where
  "events_of (HTTPException _ _) = []"
| "events_of (StreamingResponse evs) = evs"
| "events_of (Unhandled _) = []"

text \<open>Whether a name resolves in the registry: it is a string that is a key.\<close>

fun resolves :: "json \<Rightarrow> bool" where
  "resolves (JStr s) = (TOOLS s \<noteq> None)"
| "resolves _ = False"

section \<open>Notions the properties are stated with\<close>



text \<open>Newest first: no row is followed by one with a later time stamp.\<close>

definition newest_first :: "('a \<Rightarrow> timestamp) \<Rightarrow> 'a list \<Rightarrow> bool" where
  "newest_first created_at rows = sorted_wrt (\<lambda>a b. created_at b \<le> created_at a) rows"

text \<open>A request for a tool by name, with its arguments.\<close>

definition request :: "string \<Rightarrow> kwargs \<Rightarrow> body" where
  "request name kw = \<lparr>b_name = Some (JStr name), b_arguments = Some kw\<rparr>"

subsection \<open>A small store to evaluate the operations on\<close>

definition ann :: customer where
  "ann = \<lparr>c_id = 1, c_name = ''Ann'', c_email = ''ann@example.com'', c_phone = ''555-0100'',
     c_status = ''active'', c_created_at = 10, c_updated_at = 10\<rparr>"

definition bob :: customer where
  "bob = \<lparr>c_id = 2, c_name = ''Bob'', c_email = ''bob@example.com'', c_phone = ''555-0101'',
     c_status = ''disabled'', c_created_at = 20, c_updated_at = 20\<rparr>"

definition cyd :: customer where
  "cyd = \<lparr>c_id = 3, c_name = ''Cyd'', c_email = ''cyd@example.com'', c_phone = ''555-0102'',
     c_status = ''active'', c_created_at = 30, c_updated_at = 30\<rparr>"

definition tk1 :: ticket where
  "tk1 = \<lparr>t_id = 1, t_customer_id = 1, t_issue = ''login failure'', t_status = ''open'',
     t_priority = ''high'', t_created_at = 40\<rparr>"

definition tk2 :: ticket where
  "tk2 = \<lparr>t_id = 2, t_customer_id = 1, t_issue = ''billing'', t_status = ''open'',
     t_priority = ''low'', t_created_at = 50\<rparr>"

definition tk3 :: ticket where
  "tk3 = \<lparr>t_id = 3, t_customer_id = 2, t_issue = ''refund'', t_status = ''open'',
     t_priority = ''medium'', t_created_at = 45\<rparr>"

definition db0 :: db where
  "db0 = \<lparr>customers = [ann, bob, cyd], tickets = [tk1, tk2, tk3]\<rparr>"

section \<open>Facts about the SQL helpers\<close>


lemma mset_order_by_desc: "mset (order_by_desc f rows) = mset rows"
  by (simp add: order_by_desc_def)

lemma newest_first_order_by_desc: "newest_first f (order_by_desc f rows)"
proof -
  have "sorted (map f (sort_key f rows))" by (rule sorted_sort_key)
  then have "sorted_wrt (\<lambda>a b. f a \<le> f b) (sort_key f rows)"
    by (simp add: sorted_map)
  then show ?thesis
    by (simp add: newest_first_def order_by_desc_def sorted_wrt_rev)
qed





lemma TOOLS_empty_name: "TOOLS [] = None"
  by (simp add: TOOLS_def)

section \<open>The event lifecycle of a call\<close>

lemma event_stream_shape:
  "event_stream name tool_def arguments now d =
     ([Start name,
       (case fst (td_func tool_def arguments now d) of
          Inr result \<Rightarrow> Result name result
        | Inl e \<Rightarrow> Error name (str e)),
       End name],
      snd (td_func tool_def arguments now d))"
  by (cases "td_func tool_def arguments now d")
     (simp add: event_stream_def split: sum.splits)

lemma tools_call_resolved:
  assumes "b_name b = Some (JStr name)" and "TOOLS name = Some tool_def"
  shows "tools_call b now d =
     (StreamingResponse
        (fst (event_stream name tool_def
               (case b_arguments b of None \<Rightarrow> no_kwargs | Some a \<Rightarrow> a) now d)),
      snd (event_stream name tool_def
             (case b_arguments b of None \<Rightarrow> no_kwargs | Some a \<Rightarrow> a) now d))"
proof -
  from assms(2) have "name \<noteq> []" using TOOLS_empty_name by auto
  with assms show ?thesis
    by (simp add: tools_call_def Let_def split: prod.splits)
qed

text \<open>
  Claim C1. Whatever the operation bound to a registry entry does, the generator yields
  three events: the start event, then one content event, then the end event. The content
  event is the result event carrying the returned value when the operation returns, and
  the error event carrying \<^verbatim>\<open>str(e)\<close> when it raises \<open>e\<close>; no exception leaves the
  generator. A request whose name resolves in the registry is answered with exactly this
  sequence. The entry \<open>tool_def\<close> is arbitrary in the first part, so the operation may
  raise any exception on any arguments.
\<close>

theorem event_stream_lifecycle:
  "(\<exists>content.
      fst (event_stream name tool_def arguments now d) = [Start name, content, End name] \<and>
      (case fst (td_func tool_def arguments now d) of
         Inr result \<Rightarrow> content = Result name result
       | Inl e \<Rightarrow> content = Error name (str e))) \<and>
   (b_name b = Some (JStr name) \<and> TOOLS name = Some tool_def \<longrightarrow>
      fst (tools_call b now d) =
        StreamingResponse
          (fst (event_stream name tool_def
                 (case b_arguments b of None \<Rightarrow> no_kwargs | Some a \<Rightarrow> a) now d)))"
proof
  show "\<exists>content.
      fst (event_stream name tool_def arguments now d) = [Start name, content, End name] \<and>
      (case fst (td_func tool_def arguments now d) of
         Inr result \<Rightarrow> content = Result name result
       | Inl e \<Rightarrow> content = Error name (str e))"
    by (simp add: event_stream_shape split: sum.splits)
next
  show "b_name b = Some (JStr name) \<and> TOOLS name = Some tool_def \<longrightarrow>
      fst (tools_call b now d) =
        StreamingResponse
          (fst (event_stream name tool_def
                 (case b_arguments b of None \<Rightarrow> no_kwargs | Some a \<Rightarrow> a) now d))"
    by (simp add: tools_call_resolved)
qed

text \<open>
  The theorem at a call of \<^verbatim>\<open>update_customer\<close> that lacks the argument \<^verbatim>\<open>data\<close>: the
  \<^verbatim>\<open>TypeError\<close> of the call is the error event between start and end.
\<close>

theorem event_stream_lifecycle_witness:
  "b_name (request ''update_customer'' (no_kwargs\<lparr>kw_customer_id := Some 2\<rparr>)) =
     Some (JStr ''update_customer'') \<and>
   TOOLS ''update_customer'' =
     Some \<lparr>td_name = ''update_customer'',
            td_description = ''Update fields of a customer record.'',
            td_func = call_update_customer\<rparr> \<and>
   fst (tools_call (request ''update_customer'' (no_kwargs\<lparr>kw_customer_id := Some 2\<rparr>)) 99 db0) =
     StreamingResponse
       [Start ''update_customer'',
        Error ''update_customer'' (str (missing_argument ''update_customer'' ''data'')),
        End ''update_customer'']"
proof -
  let ?kw = "no_kwargs\<lparr>kw_customer_id := Some 2\<rparr>"
  let ?td = "\<lparr>td_name = ''update_customer'',
      td_description = ''Update fields of a customer record.'',
      td_func = call_update_customer\<rparr>"
  have n: "b_name (request ''update_customer'' ?kw) = Some (JStr ''update_customer'')"
    and a: "b_arguments (request ''update_customer'' ?kw) = Some ?kw"
    by (simp_all add: request_def)
  have t: "TOOLS ''update_customer'' = Some ?td"
    by (simp add: TOOLS_def)
  have f: "fst (td_func ?td ?kw 99 db0) = Inl (missing_argument ''update_customer'' ''data'')"
    by (simp add: call_update_customer_def unexpected_def kw_keys_def no_kwargs_def)
  from event_stream_lifecycle
         [of "''update_customer''" ?td ?kw 99 db0 "request ''update_customer'' ?kw"] n t a f
  have "fst (tools_call (request ''update_customer'' ?kw) 99 db0) =
     StreamingResponse
       [Start ''update_customer'',
        Error ''update_customer'' (str (missing_argument ''update_customer'' ''data'')),
        End ''update_customer'']"
    by auto
  with n t show ?thesis by blast
qed

section \<open>Rejected requests\<close>

text \<open>
  What the endpoint does with a name that selects no tool. A name that is missing or
  falsy (null, false, zero, the empty string, an empty list or dictionary) is rejected
  with status 400. A non-empty string that is no key of the registry is rejected with
  status 404. Whenever the name is missing or does not resolve, no event is emitted
  and the store is untouched.
\<close>

lemma tools_call_rejected:
  "(b_name b = None \<or> (\<exists>v. b_name b = Some v \<and> \<not> truthy v) \<longrightarrow>
      tools_call b now d = (HTTPException 400 Missing_name, d)) \<and>
   (b_name b = Some (JStr name) \<and> name \<noteq> [] \<and> TOOLS name = None \<longrightarrow>
      tools_call b now d = (HTTPException 404 (Unknown_tool (JStr name)), d)) \<and>
   (b_name b = None \<or> (\<exists>v. b_name b = Some v \<and> \<not> resolves v) \<longrightarrow>
      events_of (fst (tools_call b now d)) = [] \<and> snd (tools_call b now d) = d)"
proof (intro conjI impI)
  assume "b_name b = None \<or> (\<exists>v. b_name b = Some v \<and> \<not> truthy v)"
  then show "tools_call b now d = (HTTPException 400 Missing_name, d)"
    by (auto simp add: tools_call_def)
next
  assume "b_name b = Some (JStr name) \<and> name \<noteq> [] \<and> TOOLS name = None"
  then show "tools_call b now d = (HTTPException 404 (Unknown_tool (JStr name)), d)"
    by (simp add: tools_call_def)
next
  assume a: "b_name b = None \<or> (\<exists>v. b_name b = Some v \<and> \<not> resolves v)"
  show "events_of (fst (tools_call b now d)) = []"
  proof (cases "b_name b")
    case None
    then show ?thesis by (simp add: tools_call_def)
  next
    case (Some v)
    with a have "\<not> resolves v" by auto
    with Some show ?thesis
      by (cases v) (auto simp add: tools_call_def split: option.splits)
  qed
  show "snd (tools_call b now d) = d"
  proof (cases "b_name b")
    case None
    then show ?thesis by (simp add: tools_call_def)
  next
    case (Some v)
    with a have "\<not> resolves v" by auto
    with Some show ?thesis
      by (cases v) (auto simp add: tools_call_def split: option.splits)
  qed
qed

text \<open>
  Claim C2. The claim asks for status 404 whenever the name does not resolve. At the
  request whose name is the list \<^verbatim>\<open>["x"]\<close> the code does otherwise: the name is truthy,
  so the guard \<^verbatim>\<open>if not name\<close> lets it pass; it resolves to no tool; and
  \<^verbatim>\<open>TOOLS.get(name)\<close> raises \<^verbatim>\<open>TypeError\<close> for the unhashable key before the test that
  raises the 404. The exception is raised outside the generator's \<^verbatim>\<open>try\<close>, so the request
  ends as an unhandled error (status 500), with no event and the store untouched.
\<close>

theorem tools_call_unhashable_name:
  "truthy (JList [JStr ''x'']) \<and> \<not> resolves (JList [JStr ''x'']) \<and>
   tools_call \<lparr>b_name = Some (JList [JStr ''x'']), b_arguments = None\<rparr> 99 db0 =
     (Unhandled (TypeError (''unhashable type: '' @ quoted ''list'')), db0)"
  by (simp add: tools_call_def)

section \<open>Validation in \<^verbatim>\<open>update_customer\<close> and \<^verbatim>\<open>create_ticket\<close>\<close>

lemma update_customer_no_fields:
  assumes "\<forall>k \<in> set (map fst data). k \<notin> {''name'', ''email'', ''phone'', ''status''}"
  shows "update_customer customer_id data now d =
           (Inl (ValueError ''No valid fields to update.''), d)"
proof -
  have "filter (\<lambda>k. k \<in> set allowed_fields) (map fst data) = []"
    using assms by (auto simp add: allowed_fields_def filter_empty_conv)
  then show ?thesis
    by (simp add: update_customer_def)
qed

lemma tools_call_update_customer:
  "tools_call (request ''update_customer''
       (no_kwargs\<lparr>kw_customer_id := Some customer_id, kw_data := Some data\<rparr>)) now d =
     (StreamingResponse
        [Start ''update_customer'',
         (case fst (update_customer customer_id data now d) of
            Inr result \<Rightarrow> Result ''update_customer'' result
          | Inl e \<Rightarrow> Error ''update_customer'' (str e)),
         End ''update_customer''],
      snd (update_customer customer_id data now d))"
  by (simp add: tools_call_def TOOLS_def request_def event_stream_shape
        call_update_customer_def unexpected_def kw_keys_def no_kwargs_def)

text \<open>
  Claim C5. When \<^verbatim>\<open>data\<close> is empty or has no key among name, email, phone and status,
  \<^verbatim>\<open>update_customer\<close> raises the \<^verbatim>\<open>ValueError\<close> with the message
  \<^verbatim>\<open>No valid fields to update.\<close>, and the call through the endpoint yields the error
  event with that message between the start and the end event.
\<close>

theorem update_customer_no_valid_fields:
  assumes "\<forall>k \<in> set (map fst data). k \<notin> {''name'', ''email'', ''phone'', ''status''}"
  shows "fst (update_customer customer_id data now d) =
           Inl (ValueError ''No valid fields to update.'') \<and>
         fst (tools_call (request ''update_customer''
                (no_kwargs\<lparr>kw_customer_id := Some customer_id, kw_data := Some data\<rparr>)) now d) =
           StreamingResponse
             [Start ''update_customer'',
              Error ''update_customer'' ''No valid fields to update.'',
              End ''update_customer'']"
  using update_customer_no_fields [OF assms, of customer_id now d]
  by (simp add: tools_call_update_customer)

text \<open>The theorem at the empty mapping and at a mapping of two unknown keys.\<close>

theorem update_customer_no_valid_fields_witness:
  "fst (update_customer 1 [] 99 db0) = Inl (ValueError ''No valid fields to update.'') \<and>
   fst (update_customer 1 [(''id'', ''7''), (''nickname'', ''Annie'')] 99 db0) =
     Inl (ValueError ''No valid fields to update.'') \<and>
   fst (tools_call (request ''update_customer''
          (no_kwargs\<lparr>kw_customer_id := Some 1,
             kw_data := Some [(''id'', ''7''), (''nickname'', ''Annie'')]\<rparr>)) 99 db0) =
     StreamingResponse
       [Start ''update_customer'',
        Error ''update_customer'' ''No valid fields to update.'',
        End ''update_customer'']"
  using update_customer_no_valid_fields [of "[]" 1 99 db0]
        update_customer_no_valid_fields [of "[(''id'', ''7''), (''nickname'', ''Annie'')]" 1 99 db0]
  by simp

lemma update_customer_error_store:
  "fst (update_customer customer_id data now d) = Inl e \<Longrightarrow>
     snd (update_customer customer_id data now d) = d"
  by (auto simp add: update_customer_def Let_def split: if_splits option.splits sum.splits)

text \<open>
  Claim C10. Both validations come before the first statement on the store: a call of
  \<^verbatim>\<open>update_customer\<close> that raises \<^verbatim>\<open>No valid fields to update.\<close> and a call of
  \<^verbatim>\<open>create_ticket\<close> with a priority other than low, medium and high leave the store as
  it was.
\<close>

theorem failed_validation_leaves_store:
  "(fst (update_customer customer_id data now d) = Inl (ValueError ''No valid fields to update.'')
      \<longrightarrow> snd (update_customer customer_id data now d) = d) \<and>
   (priority \<notin> {''low'', ''medium'', ''high''} \<longrightarrow>
      create_ticket customer_id issue priority now d =
        (Inl (ValueError ''priority must be one of: low, medium, high''), d))"
  by (simp add: update_customer_error_store create_ticket_def)

theorem failed_validation_leaves_store_witness:
  "update_customer 1 [(''nickname'', ''Annie'')] 99 db0 =
     (Inl (ValueError ''No valid fields to update.''), db0) \<and>
   create_ticket 1 ''login failure'' ''urgent'' 99 db0 =
     (Inl (ValueError ''priority must be one of: low, medium, high''), db0)"
proof -
  have u: "fst (update_customer 1 [(''nickname'', ''Annie'')] 99 db0) =
             Inl (ValueError ''No valid fields to update.'')"
    by (simp add: update_customer_def allowed_fields_def)
  have p: "''urgent'' \<notin> {''low'', ''medium'', ''high''}" by simp
  from failed_validation_leaves_store
         [of 1 "[(''nickname'', ''Annie'')]" 99 db0 "''urgent''" "''login failure''"] u p
  show ?thesis by (simp add: prod_eq_iff)
qed

section \<open>Creating a ticket\<close>




lemma sqlite_int_bounds:
  "sqlite_int 1" "sqlite_int 2" "sqlite_int 7" "sqlite_int 20" "sqlite_int 999"
  "sqlite_int (- 1)" "sqlite_int 5"
  "\<not> sqlite_int 9223372036854775808" "\<not> sqlite_int (- 9223372036854775809)"
  by (simp_all add: sqlite_int_def)


lemma tools_call_create_ticket:
  "tools_call (request ''create_ticket''
       (no_kwargs\<lparr>kw_customer_id := Some customer_id, kw_issue := Some issue,
          kw_priority := priority\<rparr>)) now d =
     (StreamingResponse
        [Start ''create_ticket'',
         (case fst (create_ticket customer_id issue
                      (case priority of None \<Rightarrow> ''medium'' | Some p \<Rightarrow> p) now d) of
            Inr result \<Rightarrow> Result ''create_ticket'' result
          | Inl e \<Rightarrow> Error ''create_ticket'' (str e)),
         End ''create_ticket''],
      snd (create_ticket customer_id issue
             (case priority of None \<Rightarrow> ''medium'' | Some p \<Rightarrow> p) now d))"
  by (cases priority)
     (simp_all add: tools_call_def TOOLS_def request_def event_stream_shape
        call_create_ticket_def unexpected_def kw_keys_def no_kwargs_def)




section \<open>Listing customers\<close>


















section \<open>Updating a customer\<close>



















section \<open>The customer invariant\<close>











section \<open>Reading a customer and the history\<close>

lemma tools_call_get_customer:
  "tools_call (request ''get_customer'' (no_kwargs\<lparr>kw_customer_id := Some customer_id\<rparr>)) now d =
     (StreamingResponse
        [Start ''get_customer'',
         (case get_customer customer_id d of
            Inr result \<Rightarrow> Result ''get_customer'' result
          | Inl e \<Rightarrow> Error ''get_customer'' (str e)),
         End ''get_customer''],
      d)"
  by (simp add: tools_call_def TOOLS_def request_def event_stream_shape
        call_get_customer_def unexpected_def kw_keys_def no_kwargs_def)

lemma tools_call_get_customer_history:
  "tools_call (request ''get_customer_history''
       (no_kwargs\<lparr>kw_customer_id := Some customer_id\<rparr>)) now d =
     (StreamingResponse
        [Start ''get_customer_history'',
         (case get_customer_history customer_id d of
            Inr result \<Rightarrow> Result ''get_customer_history'' result
          | Inl e \<Rightarrow> Error ''get_customer_history'' (str e)),
         End ''get_customer_history''],
      d)"
  by (simp add: tools_call_def TOOLS_def request_def event_stream_shape
        call_get_customer_history_def unexpected_def kw_keys_def no_kwargs_def)

lemma find_absent: "customer_id \<notin> c_id ` set cs \<Longrightarrow> find (\<lambda>c. c_id c = customer_id) cs = None"
  by (auto simp add: find_None_iff)

lemma find_present:
  "customer_id \<in> c_id ` set cs \<Longrightarrow>
     \<exists>cust. find (\<lambda>c. c_id c = customer_id) cs = Some cust \<and> cust \<in> set cs \<and>
       c_id cust = customer_id"
proof -
  assume "customer_id \<in> c_id ` set cs"
  then have "find (\<lambda>c. c_id c = customer_id) cs \<noteq> None"
    by (auto simp add: find_None_iff)
  then obtain cust where f: "find (\<lambda>c. c_id c = customer_id) cs = Some cust" by blast
  then have "cust \<in> set cs \<and> c_id cust = customer_id"
    by (auto simp add: find_Some_iff)
  with f show ?thesis by blast
qed

text \<open>
  Claim C8, as stated, at the customer identity \<open>2\<^sup>6\<^sup>3\<close>, which no customer of the small
  store has: the identity does not fit the store's integer, the \<^verbatim>\<open>SELECT\<close> raises
  \<^verbatim>\<open>OverflowError\<close>, and both tools deliver an error event.
\<close>

theorem reads_overflow:
  "9223372036854775808 \<notin> c_id ` set (customers db0) \<and>
   fst (tools_call (request ''get_customer''
          (no_kwargs\<lparr>kw_customer_id := Some 9223372036854775808\<rparr>)) 99 db0) =
     StreamingResponse
       [Start ''get_customer'',
        Error ''get_customer'' ''Python int too large to convert to SQLite INTEGER'',
        End ''get_customer''] \<and>
   fst (tools_call (request ''get_customer_history''
          (no_kwargs\<lparr>kw_customer_id := Some 9223372036854775808\<rparr>)) 99 db0) =
     StreamingResponse
       [Start ''get_customer_history'',
        Error ''get_customer_history'' ''Python int too large to convert to SQLite INTEGER'',
        End ''get_customer_history'']"
proof -
  have a: "9223372036854775808 \<notin> c_id ` set (customers db0)"
    by (simp add: db0_def ann_def bob_def cyd_def)
  have g: "get_customer 9223372036854775808 db0 = Inl too_large"
    and h: "get_customer_history 9223372036854775808 db0 = Inl too_large"
    by (simp_all add: get_customer_def get_customer_history_def sqlite_int_bounds)
  from a show ?thesis
    by (simp add: tools_call_get_customer tools_call_get_customer_history g h too_large_def)
qed

text \<open>
  Claim C8, amended. For a customer identity within the signed 64-bit range, a call of
  \<^verbatim>\<open>get_customer\<close> or of \<^verbatim>\<open>get_customer_history\<close> through the endpoint yields a result event
  carrying what the operation returns, never an error event. When no customer of the
  store has the identity, \<^verbatim>\<open>get_customer\<close> returns the empty record and
  \<^verbatim>\<open>get_customer_history\<close> returns the record with no customer and no tickets. When a
  customer has it, \<^verbatim>\<open>get_customer\<close> returns that customer and \<^verbatim>\<open>get_customer_history\<close>
  returns that customer together with the tickets of that customer, each once and no
  other, newest first. For an identity outside the range both operations raise
  \<^verbatim>\<open>OverflowError\<close>.
\<close>

theorem reads_of_absent_customer:
  "(sqlite_int customer_id \<longrightarrow>
      (\<exists>p q.
         get_customer customer_id d = Inr p \<and>
         get_customer_history customer_id d = Inr q \<and>
         fst (tools_call (request ''get_customer''
                (no_kwargs\<lparr>kw_customer_id := Some customer_id\<rparr>)) now d) =
           StreamingResponse
             [Start ''get_customer'', Result ''get_customer'' p, End ''get_customer''] \<and>
         fst (tools_call (request ''get_customer_history''
                (no_kwargs\<lparr>kw_customer_id := Some customer_id\<rparr>)) now d) =
           StreamingResponse
             [Start ''get_customer_history'', Result ''get_customer_history'' q,
              End ''get_customer_history''] \<and>
         (customer_id \<notin> c_id ` set (customers d) \<longrightarrow>
            p = EmptyRecord \<and> q = HistoryRecord None []) \<and>
         (customer_id \<in> c_id ` set (customers d) \<longrightarrow>
            (\<exists>cust ts.
               p = CustomerRow cust \<and> q = HistoryRecord (Some cust) ts \<and>
               cust \<in> set (customers d) \<and> c_id cust = customer_id \<and>
               mset ts = mset (filter (\<lambda>t. t_customer_id t = customer_id) (tickets d)) \<and>
               newest_first t_created_at ts)))) \<and>
   (\<not> sqlite_int customer_id \<longrightarrow>
      get_customer customer_id d =
        Inl (OverflowError ''Python int too large to convert to SQLite INTEGER'') \<and>
      get_customer_history customer_id d =
        Inl (OverflowError ''Python int too large to convert to SQLite INTEGER''))"
proof (intro conjI impI)
  assume r: "sqlite_int customer_id"
  let ?ts = "order_by_desc t_created_at (filter (\<lambda>t. t_customer_id t = customer_id) (tickets d))"
  let ?p = "case find (\<lambda>c. c_id c = customer_id) (customers d) of
              Some row \<Rightarrow> CustomerRow row | None \<Rightarrow> EmptyRecord"
  let ?q = "case find (\<lambda>c. c_id c = customer_id) (customers d) of
              None \<Rightarrow> HistoryRecord None [] | Some cust \<Rightarrow> HistoryRecord (Some cust) ?ts"
  have g: "get_customer customer_id d = Inr ?p"
    using r by (simp add: get_customer_def split: option.splits)
  have h: "get_customer_history customer_id d = Inr ?q"
    using r by (simp add: get_customer_history_def split: option.splits)
  have e1: "fst (tools_call (request ''get_customer''
                (no_kwargs\<lparr>kw_customer_id := Some customer_id\<rparr>)) now d) =
           StreamingResponse
             [Start ''get_customer'', Result ''get_customer'' ?p, End ''get_customer'']"
    by (simp only: tools_call_get_customer g) simp
  have e2: "fst (tools_call (request ''get_customer_history''
                (no_kwargs\<lparr>kw_customer_id := Some customer_id\<rparr>)) now d) =
           StreamingResponse
             [Start ''get_customer_history'', Result ''get_customer_history'' ?q,
              End ''get_customer_history'']"
    by (simp only: tools_call_get_customer_history h) simp
  have n: "customer_id \<notin> c_id ` set (customers d) \<longrightarrow>
            ?p = EmptyRecord \<and> ?q = HistoryRecord None []"
    by (auto simp add: find_absent)
  have y: "customer_id \<in> c_id ` set (customers d) \<longrightarrow>
            (\<exists>cust ts.
               ?p = CustomerRow cust \<and> ?q = HistoryRecord (Some cust) ts \<and>
               cust \<in> set (customers d) \<and> c_id cust = customer_id \<and>
               mset ts = mset (filter (\<lambda>t. t_customer_id t = customer_id) (tickets d)) \<and>
               newest_first t_created_at ts)"
  proof
    assume "customer_id \<in> c_id ` set (customers d)"
    then obtain cust where f: "find (\<lambda>c. c_id c = customer_id) (customers d) = Some cust"
      and m: "cust \<in> set (customers d)" and i: "c_id cust = customer_id"
      using find_present by blast
    have "?p = CustomerRow cust" and "?q = HistoryRecord (Some cust) ?ts"
      using f by simp_all
    moreover have "mset ?ts = mset (filter (\<lambda>t. t_customer_id t = customer_id) (tickets d))"
      by (rule mset_order_by_desc)
    moreover have "newest_first t_created_at ?ts"
      by (rule newest_first_order_by_desc)
    ultimately show "\<exists>cust ts.
               ?p = CustomerRow cust \<and> ?q = HistoryRecord (Some cust) ts \<and>
               cust \<in> set (customers d) \<and> c_id cust = customer_id \<and>
               mset ts = mset (filter (\<lambda>t. t_customer_id t = customer_id) (tickets d)) \<and>
               newest_first t_created_at ts"
      using m i by (intro exI [of _ cust] exI [of _ ?ts] conjI)
  qed
  show "\<exists>p q.
         get_customer customer_id d = Inr p \<and>
         get_customer_history customer_id d = Inr q \<and>
         fst (tools_call (request ''get_customer''
                (no_kwargs\<lparr>kw_customer_id := Some customer_id\<rparr>)) now d) =
           StreamingResponse
             [Start ''get_customer'', Result ''get_customer'' p, End ''get_customer''] \<and>
         fst (tools_call (request ''get_customer_history''
                (no_kwargs\<lparr>kw_customer_id := Some customer_id\<rparr>)) now d) =
           StreamingResponse
             [Start ''get_customer_history'', Result ''get_customer_history'' q,
              End ''get_customer_history''] \<and>
         (customer_id \<notin> c_id ` set (customers d) \<longrightarrow>
            p = EmptyRecord \<and> q = HistoryRecord None []) \<and>
         (customer_id \<in> c_id ` set (customers d) \<longrightarrow>
            (\<exists>cust ts.
               p = CustomerRow cust \<and> q = HistoryRecord (Some cust) ts \<and>
               cust \<in> set (customers d) \<and> c_id cust = customer_id \<and>
               mset ts = mset (filter (\<lambda>t. t_customer_id t = customer_id) (tickets d)) \<and>
               newest_first t_created_at ts))"
    by (rule exI [of _ ?p], rule exI [of _ ?q]) (intro conjI g h e1 e2 n y)
next
  assume "\<not> sqlite_int customer_id"
  then show "get_customer customer_id d =
        Inl (OverflowError ''Python int too large to convert to SQLite INTEGER'')"
    by (simp add: get_customer_def too_large_def)
next
  assume "\<not> sqlite_int customer_id"
  then show "get_customer_history customer_id d =
        Inl (OverflowError ''Python int too large to convert to SQLite INTEGER'')"
    by (simp add: get_customer_history_def too_large_def)
qed

text \<open>
  The theorem on the small store: customer 999 does not exist, and customer 1 has the
  tickets 1 and 2, of which ticket 2 is the newer.
\<close>

theorem reads_of_absent_customer_witness:
  "sqlite_int 999 \<and> sqlite_int 1 \<and>
   999 \<notin> c_id ` set (customers db0) \<and>
   fst (tools_call (request ''get_customer'' (no_kwargs\<lparr>kw_customer_id := Some 999\<rparr>)) 99 db0) =
     StreamingResponse
       [Start ''get_customer'', Result ''get_customer'' EmptyRecord, End ''get_customer''] \<and>
   fst (tools_call (request ''get_customer_history''
          (no_kwargs\<lparr>kw_customer_id := Some 999\<rparr>)) 99 db0) =
     StreamingResponse
       [Start ''get_customer_history'',
        Result ''get_customer_history'' (HistoryRecord None []),
        End ''get_customer_history''] \<and>
   get_customer_history 1 db0 = Inr (HistoryRecord (Some ann) [tk2, tk1]) \<and>
   newest_first t_created_at [tk2, tk1]"
proof -
  have a: "999 \<notin> c_id ` set (customers db0)"
    by (simp add: db0_def ann_def bob_def cyd_def)
  have p: "1 \<in> c_id ` set (customers db0)"
    by (simp add: db0_def ann_def bob_def cyd_def)
  have h: "get_customer_history 1 db0 = Inr (HistoryRecord (Some ann) [tk2, tk1])"
    by (simp add: get_customer_history_def sqlite_int_bounds order_by_desc_def
          db0_def ann_def bob_def cyd_def tk1_def tk2_def tk3_def)
  from reads_of_absent_customer [of 999 db0 99] sqlite_int_bounds(5) a
  obtain p' q' where
    "fst (tools_call (request ''get_customer'' (no_kwargs\<lparr>kw_customer_id := Some 999\<rparr>)) 99 db0) =
       StreamingResponse
         [Start ''get_customer'', Result ''get_customer'' p', End ''get_customer'']"
    and "fst (tools_call (request ''get_customer_history''
          (no_kwargs\<lparr>kw_customer_id := Some 999\<rparr>)) 99 db0) =
       StreamingResponse
         [Start ''get_customer_history'', Result ''get_customer_history'' q',
          End ''get_customer_history'']"
    and "p' = EmptyRecord \<and> q' = HistoryRecord None []"
    by blast
  then have e: "fst (tools_call (request ''get_customer'' (no_kwargs\<lparr>kw_customer_id := Some 999\<rparr>)) 99 db0) =
     StreamingResponse
       [Start ''get_customer'', Result ''get_customer'' EmptyRecord, End ''get_customer'']"
    and g: "fst (tools_call (request ''get_customer_history''
          (no_kwargs\<lparr>kw_customer_id := Some 999\<rparr>)) 99 db0) =
     StreamingResponse
       [Start ''get_customer_history'',
        Result ''get_customer_history'' (HistoryRecord None []),
        End ''get_customer_history'']"
    by simp_all
  from reads_of_absent_customer [of 1 db0 99] sqlite_int_bounds(1) p
  obtain q cust ts where "get_customer_history 1 db0 = Inr q"
    and "q = HistoryRecord (Some cust) ts" and "newest_first t_created_at ts"
    by blast
  with h have n: "newest_first t_created_at [tk2, tk1]" by simp
  from a e g h n sqlite_int_bounds show ?thesis by simp
qed

end
